theory Spec2Isabelle
  imports Complex_Main
begin

section \<open>Numeric field filter state (NumericFieldFilter.state.ts)\<close>

text \<open>
  A shallow embedding of the selectors of
  \<^verbatim>\<open>app/packages/app/src/components/Filters/NumericFieldFilter.state.ts\<close>.
  Every selector reads the application state through \<^verbatim>\<open>get\<close>; the state it can
  read is the record \<open>state\<close> below, and a selector becomes a function of that record.
  The two writable selectors change the filter store only, so a write returns the
  updated record.
\<close>

subsection \<open>Values\<close>

text \<open>
  Modelled from the spec: the elements of a bounds pair, "nullable numeric or date
  values", and of a statistics result, "possibly of wrapped date/time values". An element
  is \<^verbatim>\<open>null\<close>, \<^verbatim>\<open>undefined\<close>, a number, or a wrapped date, the object with a
  \<^verbatim>\<open>datetime\<close> property that the statistics of a date field hold.
  A number is a finite one, as a real, or NaN, which is a value of its own because
  \<^verbatim>\<open>===\<close> and the relational operators treat it apart (the infinities behave as
  ordinary numbers under both and are left out). An object is compared by identity, so
  a wrapped date carries the identity of its object besides its payload.
\<close>

datatype jsval = JNull | JUndefined | JNum real | JNaN | JDateTime nat real

text \<open>
  Modelled from the spec: the type \<^verbatim>\<open>Range\<close> of \<^verbatim>\<open>./RangeSlider\<close>, "an ordered pair
  [min, max] of nullable numeric or date values".
\<close>

type_synonym Range = "jsval \<times> jsval"

text \<open>
  \<^verbatim>\<open>a === b\<close>: numbers by value, objects by identity, no conversion; NaN is not equal
  to anything, itself included (the last equation).
\<close>

fun strict_eq :: "jsval \<Rightarrow> jsval \<Rightarrow> bool" where
  "strict_eq JNull JNull = True"
| "strict_eq JUndefined JUndefined = True"
| "strict_eq (JNum x) (JNum y) = (x = y)"
| "strict_eq (JDateTime i _) (JDateTime j _) = (i = j)"
| "strict_eq _ _ = False"

text \<open>
  \<^verbatim>\<open>ToNumber\<close>, as the relational operators apply it: \<^verbatim>\<open>null\<close> is 0,
  \<^verbatim>\<open>undefined\<close> is NaN, and a plain object is NaN as well (its primitive is the
  string \<^verbatim>\<open>"[object Object]"\<close>). \<open>None\<close> stands for NaN.
\<close>

fun ToNumber :: "jsval \<Rightarrow> real option" where
  "ToNumber JNull = Some 0"
| "ToNumber JUndefined = None"
| "ToNumber (JNum x) = Some x"
| "ToNumber JNaN = None"
| "ToNumber (JDateTime _ _) = None"

text \<open>\<^verbatim>\<open>a < b\<close> and \<^verbatim>\<open>a > b\<close>: false as soon as one side is NaN.\<close>

definition js_lt :: "jsval \<Rightarrow> jsval \<Rightarrow> bool" where
  "js_lt a b = (case (ToNumber a, ToNumber b) of
                  (Some x, Some y) \<Rightarrow> x < y
                | _ \<Rightarrow> False)"

definition js_gt :: "jsval \<Rightarrow> jsval \<Rightarrow> bool" where
  "js_gt a b = (case (ToNumber a, ToNumber b) of
                  (Some x, Some y) \<Rightarrow> x > y
                | _ \<Rightarrow> False)"

text \<open>
  Truthiness of an element: \<^verbatim>\<open>null\<close>, \<^verbatim>\<open>undefined\<close>, 0 and NaN are falsy.
\<close>

fun truthy :: "jsval \<Rightarrow> bool" where
  "truthy JNull = False"
| "truthy JUndefined = False"
| "truthy (JNum x) = (x \<noteq> 0)"
| "truthy JNaN = False"
| "truthy (JDateTime _ _) = True"

text \<open>
  \<^verbatim>\<open>v.datetime\<close>: the payload of a wrapped date; a number has no such property, so
  the read gives \<^verbatim>\<open>undefined\<close>. (On \<^verbatim>\<open>null\<close> and \<^verbatim>\<open>undefined\<close> the read
  would raise; the only reader guards it by truthiness.)
\<close>

fun datetime :: "jsval \<Rightarrow> jsval" where
  "datetime (JDateTime _ d) = JNum d"
| "datetime _ = JUndefined"

subsection \<open>The state the selectors read\<close>

text \<open>
  Modelled from the spec: the type tags of \<^verbatim>\<open>utils/labels\<close> (\<^verbatim>\<open>LIST_FIELD\<close>,
  \<^verbatim>\<open>DATE_FIELD\<close>, \<^verbatim>\<open>DATE_TIME_FIELD\<close>, ...), "a primitive type tag (one of a
  fixed enumeration including list, frame-support, int, date, date-time, and other
  numeric types)". Only the three tags that the bounds depend on are told apart.
\<close>

datatype field_type = LIST_FIELD | DATE_FIELD | DATE_TIME_FIELD | OTHER_FIELD string

text \<open>
  Modelled from the spec: the aggregation kinds of \<^verbatim>\<open>utils/labels\<close>
  (\<^verbatim>\<open>AGGS.BOUNDS\<close> and the others) and the records of \<^verbatim>\<open>selectors.datasetStats\<close>,
  "a sequence of records, each tagged with a field name, an aggregation kind, and a
  result payload (for bounds aggregations: a two-element array, possibly of wrapped
  date/time values)". The result of an entry of another kind is never read.
\<close>

datatype agg_kind = BOUNDS | OTHER_AGG string

record stat =
  s_name :: string
  s_CLS :: agg_kind
  s_result :: Range

text \<open>
  \<^verbatim>\<open>type NumericFilter = { range: Range; none: boolean; _CLS: string }\<close>
\<close>

record NumericFilter =
  f_range :: Range
  f_none :: bool
  f_CLS :: string

text \<open>
  Modelled from the spec: what \<^verbatim>\<open>get\<close> can reach of the selectors that are not part
  of this module. These are the two type maps, "two mappings (primitive type,
  list-subfield type) from field path to type tag"
  (\<^verbatim>\<open>selectors.primitivesMap("sample")\<close>, \<^verbatim>\<open>selectors.primitivesSubfieldMap("sample")\<close>;
  a path that is not a key reads as \<^verbatim>\<open>undefined\<close>), the statistics
  (\<^verbatim>\<open>null\<close>/\<^verbatim>\<open>undefined\<close> before they are loaded), and the filter store behind
  \<^verbatim>\<open>filterStage\<close>, keyed by (modal, path).
\<close>

record state =
  primitivesMap :: "string \<rightharpoonup> field_type"
  primitivesSubfieldMap :: "string \<rightharpoonup> field_type"
  datasetStats :: "stat list option"
  filterStages :: "bool \<times> string \<rightharpoonup> NumericFilter"

text \<open>
  Modelled from the spec: the selector family \<^verbatim>\<open>filterStage\<close> of \<^verbatim>\<open>./atoms\<close>,
  "a keyed persisted-filter store, get/set by (field path, modal-context boolean) \<rightarrow>
  filter record or absent". Reading an absent key contributes no property to the
  object spread; writing \<^verbatim>\<open>null\<close> makes the key absent.
\<close>

definition filterStage_get :: "state \<Rightarrow> bool \<Rightarrow> string \<Rightarrow> NumericFilter option" where
  "filterStage_get env modal path = filterStages env (modal, path)"

definition filterStage_set :: "state \<Rightarrow> bool \<Rightarrow> string \<Rightarrow> NumericFilter option \<Rightarrow> state" where
  "filterStage_set env modal path v =
     env\<lparr>filterStages := (filterStages env)((modal, path) := v)\<rparr>"

subsection \<open>Field type predicates\<close>

definition isDateTimeField :: "state \<Rightarrow> string \<Rightarrow> bool" where
  "isDateTimeField env name =
     (let map0 = primitivesMap env;
          map1 = (if map0 name = Some LIST_FIELD then primitivesSubfieldMap env else map0)
      in Some DATE_TIME_FIELD = map1 name)"

definition isDateField :: "state \<Rightarrow> string \<Rightarrow> bool" where
  "isDateField env name =
     (let map0 = primitivesMap env;
          map1 = (if map0 name = Some LIST_FIELD then primitivesSubfieldMap env else map0)
      in Some DATE_FIELD = map1 name)"

subsection \<open>Bounds\<close>

text \<open>The callback of \<^verbatim>\<open>cur.result.map\<close>: \<^verbatim>\<open>(v) => (v ? v.datetime : v)\<close>.\<close>

definition unwrap :: "jsval \<Rightarrow> jsval" where
  "unwrap v = (if truthy v then datetime v else v)"

text \<open>The callback of \<^verbatim>\<open>reduce\<close>, with \<^verbatim>\<open>isDateOrDateTime\<close> and the path as parameters.\<close>

definition reduce_step :: "bool \<Rightarrow> string \<Rightarrow> Range \<Rightarrow> stat \<Rightarrow> Range" where
  "reduce_step isDateOrDateTime path acc cur =
     (if s_name cur \<noteq> path \<or> s_CLS cur \<noteq> BOUNDS then acc
      else if isDateOrDateTime then (unwrap (fst (s_result cur)), unwrap (snd (s_result cur)))
      else s_result cur)"

text \<open>\<^verbatim>\<open>(get(selectors.datasetStats) ?? []).reduce(..., [null, null])\<close>\<close>

definition dataBounds :: "state \<Rightarrow> string \<Rightarrow> Range" where
  "dataBounds env path =
     (let isDateOrDateTime = isDateTimeField env path \<or> isDateField env path
      in foldl (reduce_step isDateOrDateTime path) (JNull, JNull)
           (case datasetStats env of None \<Rightarrow> [] | Some stats \<Rightarrow> stats))"

text \<open>
  \<^verbatim>\<open>boundsAtom({ path, defaultRange })\<close>. An absent or \<^verbatim>\<open>null\<close> override is
  \<open>None\<close>; an override that is given is an array, hence truthy.
\<close>

definition boundsAtom :: "state \<Rightarrow> string \<Rightarrow> Range option \<Rightarrow> Range" where
  "boundsAtom env path defaultRange =
     (let bounds = dataBounds env path
      in if strict_eq (fst bounds) JNull \<and> strict_eq (snd bounds) JNull then bounds
         else (case defaultRange of
                 None \<Rightarrow> (fst bounds, snd bounds)
               | Some (maxMin, minMax) \<Rightarrow>
                   (if js_lt maxMin (fst bounds) then maxMin else fst bounds,
                    if js_gt minMax (snd bounds) then minMax else snd bounds)))"

subsection \<open>Reading and writing the filter\<close>

text \<open>
  \<^verbatim>\<open>filter.range.every((r, i) => r === bounds[i]) && filter.none === true\<close>
\<close>

definition meetsDefault :: "NumericFilter \<Rightarrow> Range \<Rightarrow> bool" where
  "meetsDefault filter' bounds =
     ((strict_eq (fst (f_range filter')) (fst bounds) \<and>
       strict_eq (snd (f_range filter')) (snd bounds)) \<and> f_none filter' = True)"

definition getFilter :: "state \<Rightarrow> bool \<Rightarrow> string \<Rightarrow> Range option \<Rightarrow> NumericFilter" where
  "getFilter env modal path defaultRange =
     (let bounds = boundsAtom env path defaultRange;
          result = (case filterStage_get env modal path of
                      None \<Rightarrow> \<lparr>f_range = bounds, f_none = True, f_CLS = ''numeric''\<rparr>
                    | Some stored \<Rightarrow> stored)
      in if \<not> meetsDefault (result\<lparr>f_none := True\<rparr>) bounds
         then result\<lparr>f_none := False\<rparr>
         else result)"

text \<open>
  The value of a write, \<^verbatim>\<open>boolean | Range | DefaultValue\<close>; the last is the
  sentinel that a reset of the selector passes to its setter.
\<close>

datatype val = VBool bool | VRange Range | VDefaultValue

text \<open>\<^verbatim>\<open>Boolean(value)\<close>: an array and the sentinel are objects, hence true.\<close>

fun Boolean :: "val \<Rightarrow> bool" where
  "Boolean (VBool b) = b"
| "Boolean (VRange _) = True"
| "Boolean VDefaultValue = True"

datatype error = TypeError

text \<open>
  \<^verbatim>\<open>setFilter(get, set, modal, path, key, value, defaultRange)\<close>. The object
  \<^verbatim>\<open>filter\<close> is \<^verbatim>\<open>{range: bounds, ...getFilter(...), [key]: value, _CLS: "numeric"}\<close>;
  the derived filter has a range of its own, so the leading \<^verbatim>\<open>range: bounds\<close> is always
  overwritten. What \<^verbatim>\<open>[key]: value\<close> does depends on the key:
  \<^item> \<^verbatim>\<open>"range"\<close> with an array replaces the range. With a boolean or the sentinel the
    property holds no array, and \<^verbatim>\<open>filter.range.every\<close> in \<^verbatim>\<open>meetsDefault\<close> is not a
    function: the call raises a TypeError before anything is stored.
  \<^item> \<^verbatim>\<open>"none"\<close> puts the value under \<^verbatim>\<open>none\<close>; \<^verbatim>\<open>check\<close> replaces it by
    \<^verbatim>\<open>Boolean(value)\<close> and the stored object replaces it by \<^verbatim>\<open>false\<close>, so the
    raw value is never read.
  \<^item> \<^verbatim>\<open>"_CLS"\<close> is overwritten by the literal that follows, and any other key adds a
    property that no selector of this module reads and that the record does not keep.
\<close>

definition setFilter ::
  "state \<Rightarrow> bool \<Rightarrow> string \<Rightarrow> string \<Rightarrow> val \<Rightarrow> Range option \<Rightarrow> error + state" where
  "setFilter env modal path key value defaultRange =
     (let bounds = boundsAtom env path defaultRange;
          derived = getFilter env modal path defaultRange
      in if key = ''range'' then
           (case value of
              VRange r \<Rightarrow>
                (let filter' = derived\<lparr>f_range := r, f_CLS := ''numeric''\<rparr>;
                     check = filter'\<lparr>f_none := True\<rparr>
                 in if meetsDefault check bounds
                    then Inr (filterStage_set env modal path None)
                    else Inr (filterStage_set env modal path (Some (filter'\<lparr>f_none := False\<rparr>))))
            | _ \<Rightarrow> Inl TypeError)
         else
           (let filter' = derived\<lparr>f_CLS := ''numeric''\<rparr>;
                check = (if key = ''none'' then filter'\<lparr>f_none := Boolean value\<rparr>
                         else filter'\<lparr>f_none := True\<rparr>)
            in if meetsDefault check bounds
               then Inr (filterStage_set env modal path None)
               else Inr (filterStage_set env modal path (Some (filter'\<lparr>f_none := False\<rparr>)))))"

subsection \<open>The exported selectors\<close>

definition rangeAtom_get :: "state \<Rightarrow> Range option \<Rightarrow> bool \<Rightarrow> string \<Rightarrow> Range" where
  "rangeAtom_get env defaultRange modal path = f_range (getFilter env modal path defaultRange)"

definition rangeAtom_set :: "state \<Rightarrow> Range option \<Rightarrow> bool \<Rightarrow> string \<Rightarrow> val \<Rightarrow> error + state" where
  "rangeAtom_set env defaultRange modal path range' =
     setFilter env modal path ''range'' range' defaultRange"

definition noneAtom_get :: "state \<Rightarrow> Range option \<Rightarrow> bool \<Rightarrow> string \<Rightarrow> bool" where
  "noneAtom_get env defaultRange modal path = f_none (getFilter env modal path defaultRange)"

definition noneAtom_set :: "state \<Rightarrow> Range option \<Rightarrow> bool \<Rightarrow> string \<Rightarrow> val \<Rightarrow> error + state" where
  "noneAtom_set env defaultRange modal path value =
     setFilter env modal path ''none'' value defaultRange"

text \<open>
  \<^verbatim>\<open>bounds.some((b, i) => range[i] !== b && b !== null && range[i] !== null)\<close>
  over the two positions, then the guard \<^verbatim>\<open>bounds[0] !== bounds[1]\<close>. The parameter
  \<^verbatim>\<open>modal\<close> is optional here and is handed on to \<^verbatim>\<open>filterStage\<close> as it is; the
  store is keyed by a boolean, which is what the function takes.
\<close>

definition fieldIsFiltered :: "state \<Rightarrow> string \<Rightarrow> Range option \<Rightarrow> bool \<Rightarrow> bool" where
  "fieldIsFiltered env path defaultRange modal =
     (let none = noneAtom_get env defaultRange modal path;
          range' = rangeAtom_get env defaultRange modal path;
          bounds = boundsAtom env path defaultRange
      in \<not> none \<or>
         (((\<not> strict_eq (fst range') (fst bounds) \<and> \<not> strict_eq (fst bounds) JNull
              \<and> \<not> strict_eq (fst range') JNull) \<or>
           (\<not> strict_eq (snd range') (snd bounds) \<and> \<not> strict_eq (snd bounds) JNull
              \<and> \<not> strict_eq (snd range') JNull)) \<and>
          \<not> strict_eq (fst bounds) (snd bounds)))"

section \<open>Vocabulary of the specification\<close>

text \<open>A statistics entry matches a path when the reduction does not skip it.\<close>

definition matching :: "string \<Rightarrow> stat \<Rightarrow> bool" where
  "matching path cur = (s_name cur = path \<and> s_CLS cur = BOUNDS)"

text \<open>What a matching entry contributes: its result, unwrapped for a date field.\<close>

definition entryBounds :: "bool \<Rightarrow> stat \<Rightarrow> Range" where
  "entryBounds isDateOrDateTime cur =
     (if isDateOrDateTime then (unwrap (fst (s_result cur)), unwrap (snd (s_result cur)))
      else s_result cur)"

text \<open>Position \<open>i\<close> of a pair, for \<open>i\<close> below 2.\<close>

definition elem :: "Range \<Rightarrow> nat \<Rightarrow> jsval" where
  "elem r i = (if i = 0 then fst r else snd r)"

text \<open>Two ranges are equal when \<^verbatim>\<open>===\<close> holds at both positions.\<close>

definition range_eq :: "Range \<Rightarrow> Range \<Rightarrow> bool" where
  "range_eq r b = (strict_eq (fst r) (fst b) \<and> strict_eq (snd r) (snd b))"

text \<open>
  The lesser and the greater of two values under \<^verbatim>\<open><\<close> and \<^verbatim>\<open>>\<close>, the second
  one when the comparison does not hold.
\<close>

definition lesser :: "jsval \<Rightarrow> jsval \<Rightarrow> jsval" where
  "lesser a b = (if js_lt a b then a else b)"

definition greater :: "jsval \<Rightarrow> jsval \<Rightarrow> jsval" where
  "greater a b = (if js_gt a b then a else b)"

text \<open>
  The bounds with an override in the specification's words: with a matching entry (the
  last one counts), the lesser of the two mins and the greater of the two maxes; with
  none, [null, null].
\<close>

definition boundsAtom_spec :: "state \<Rightarrow> string \<Rightarrow> Range \<Rightarrow> Range" where
  "boundsAtom_spec env path override =
     (case filter (matching path) (case datasetStats env of None \<Rightarrow> [] | Some stats \<Rightarrow> stats) of
        [] \<Rightarrow> (JNull, JNull)
      | m # ms \<Rightarrow>
          (let dataB = entryBounds (isDateTimeField env path \<or> isDateField env path)
                         (last (m # ms))
           in (lesser (fst override) (fst dataB), greater (snd override) (snd dataB))))"

text \<open>
  A finite sequence of writes to one (modal, path), each with its key, value and
  override. A write that raises stores nothing, and the next one starts from the same
  state.
\<close>

fun run_writes :: "state \<Rightarrow> bool \<Rightarrow> string \<Rightarrow> (string \<times> val \<times> Range option) list \<Rightarrow> state" where
  "run_writes env modal path [] = env"
| "run_writes env modal path ((key, value, defaultRange) # ws) =
     (case setFilter env modal path key value defaultRange of
        Inl _ \<Rightarrow> run_writes env modal path ws
      | Inr env' \<Rightarrow> run_writes env' modal path ws)"

text \<open>
  The writes that the two setters can make without raising: key \<^verbatim>\<open>"range"\<close> with a
  range, key \<^verbatim>\<open>"none"\<close> with any value.
\<close>

definition typed_write :: "string \<Rightarrow> val \<Rightarrow> bool" where
  "typed_write key value =
     (if key = ''range'' then (case value of VRange _ \<Rightarrow> True | _ \<Rightarrow> False)
      else key = ''none'')"

text \<open>
  The merge in the specification's words: the new value replaces the edited key of the
  derived filter (a \<^verbatim>\<open>none\<close> coerced to a boolean), and the kind tag is forced.
\<close>

definition merge_spec :: "NumericFilter \<Rightarrow> string \<Rightarrow> val \<Rightarrow> NumericFilter" where
  "merge_spec derived key value =
     (if key = ''range'' then (case value of VRange r \<Rightarrow> derived\<lparr>f_range := r\<rparr> | _ \<Rightarrow> derived)
      else if key = ''none'' then derived\<lparr>f_none := Boolean value\<rparr>
      else derived)\<lparr>f_CLS := ''numeric''\<rparr>"

text \<open>
  The write in the specification's words: the merged record itself is compared with the
  default record \<^verbatim>\<open>{range: bounds, none: true}\<close>; equal clears the key, anything else
  stores the merged record with \<^verbatim>\<open>none\<close> forced to false.
\<close>

definition setFilter_spec ::
  "state \<Rightarrow> bool \<Rightarrow> string \<Rightarrow> string \<Rightarrow> val \<Rightarrow> Range option \<Rightarrow> state" where
  "setFilter_spec env modal path key value defaultRange =
     (let bounds = boundsAtom env path defaultRange;
          merged = merge_spec (getFilter env modal path defaultRange) key value
      in if meetsDefault merged bounds
         then filterStage_set env modal path None
         else filterStage_set env modal path (Some (merged\<lparr>f_none := False\<rparr>)))"

text \<open>
  The same with the comparison the code makes: when the edited key is \<^verbatim>\<open>range\<close>, the
  record that is compared has its \<^verbatim>\<open>none\<close> replaced by true.
\<close>

definition setFilter_amended ::
  "state \<Rightarrow> bool \<Rightarrow> string \<Rightarrow> string \<Rightarrow> val \<Rightarrow> Range option \<Rightarrow> state" where
  "setFilter_amended env modal path key value defaultRange =
     (let bounds = boundsAtom env path defaultRange;
          merged = merge_spec (getFilter env modal path defaultRange) key value;
          check = (if key = ''range'' then merged\<lparr>f_none := True\<rparr> else merged)
      in if meetsDefault check bounds
         then filterStage_set env modal path None
         else filterStage_set env modal path (Some (merged\<lparr>f_none := False\<rparr>)))"

subsection \<open>Example states\<close>

text \<open>
  A float field \<^verbatim>\<open>confidence\<close> whose statistics give the bounds [0, 10]: with an empty
  filter store, and with the range narrowed to [2, 8].
\<close>

definition ex_stats :: "stat list" where
  "ex_stats = [\<lparr>s_name = ''confidence'', s_CLS = BOUNDS, s_result = (JNum 0, JNum 10)\<rparr>]"

definition ex_state :: state where
  "ex_state = \<lparr>primitivesMap = [''confidence'' \<mapsto> OTHER_FIELD ''FloatField''],
               primitivesSubfieldMap = Map.empty,
               datasetStats = Some ex_stats,
               filterStages = Map.empty\<rparr>"

definition ex_filtered :: state where
  "ex_filtered = filterStage_set ex_state False ''confidence''
     (Some \<lparr>f_range = (JNum 2, JNum 8), f_none = False, f_CLS = ''numeric''\<rparr>)"

text \<open>The same field with a stored record that repeats the defaults.\<close>

definition ex_default :: state where
  "ex_default = filterStage_set ex_state False ''confidence''
     (Some \<lparr>f_range = (JNum 0, JNum 10), f_none = True, f_CLS = ''numeric''\<rparr>)"

text \<open>The same field after \<^verbatim>\<open>none\<close> was set to false with the range at the bounds.\<close>

definition ex_none_false :: state where
  "ex_none_false = filterStage_set ex_state False ''confidence''
     (Some \<lparr>f_range = (JNum 0, JNum 10), f_none = False, f_CLS = ''numeric''\<rparr>)"

text \<open>
  A date-time field \<^verbatim>\<open>created_at\<close> whose statistics hold two wrapped dates, and a
  state whose statistics are not loaded.
\<close>

definition ex_date_stats :: "stat list" where
  "ex_date_stats =
     [\<lparr>s_name = ''created_at'', s_CLS = BOUNDS,
       s_result = (JDateTime 1 1000, JDateTime 2 2000)\<rparr>]"

definition ex_date_state :: state where
  "ex_date_state = \<lparr>primitivesMap = [''created_at'' \<mapsto> DATE_TIME_FIELD],
                    primitivesSubfieldMap = Map.empty,
                    datasetStats = Some ex_date_stats,
                    filterStages = Map.empty\<rparr>"

definition ex_unloaded :: state where
  "ex_unloaded = \<lparr>primitivesMap = Map.empty,
                  primitivesSubfieldMap = Map.empty,
                  datasetStats = None,
                  filterStages = Map.empty\<rparr>"

text \<open>
  The field \<^verbatim>\<open>confidence\<close> in a dataset where it has no value, so that its bounds
  entry is [null, null], and in one where its lower bound is NaN.
\<close>

definition ex_empty_stats :: "stat list" where
  "ex_empty_stats = [\<lparr>s_name = ''confidence'', s_CLS = BOUNDS, s_result = (JNull, JNull)\<rparr>]"

definition ex_empty_field :: state where
  "ex_empty_field = \<lparr>primitivesMap = [''confidence'' \<mapsto> OTHER_FIELD ''FloatField''],
                     primitivesSubfieldMap = Map.empty,
                     datasetStats = Some ex_empty_stats,
                     filterStages = Map.empty\<rparr>"

definition ex_nan_stats :: "stat list" where
  "ex_nan_stats = [\<lparr>s_name = ''confidence'', s_CLS = BOUNDS, s_result = (JNaN, JNum 5)\<rparr>]"

definition ex_nan :: state where
  "ex_nan = \<lparr>primitivesMap = [''confidence'' \<mapsto> OTHER_FIELD ''FloatField''],
             primitivesSubfieldMap = Map.empty,
             datasetStats = Some ex_nan_stats,
             filterStages = Map.empty\<rparr>"

section \<open>Properties\<close>

subsection \<open>Auxiliary facts\<close>

lemma strict_eq_self [simp]: "strict_eq x x = (x \<noteq> JNaN)"
  by (cases x) simp_all

lemma strict_eq_right_self: "strict_eq x y \<Longrightarrow> strict_eq y y"
  by (cases x; cases y) simp_all

lemma range_eq_right_self: "range_eq r b \<Longrightarrow> range_eq b b"
  unfolding range_eq_def by (blast intro: strict_eq_right_self)

lemma strict_eq_JNull [simp]: "strict_eq x JNull = (x = JNull)"
  by (cases x) simp_all

lemma reduce_step_matching:
  "reduce_step d path acc cur = (if matching path cur then entryBounds d cur else acc)"
  by (simp add: reduce_step_def matching_def entryBounds_def)

text \<open>The reduction keeps the last matching entry, or the initial pair when there is none.\<close>

lemma foldl_reduce_step:
  "foldl (reduce_step d path) acc xs =
     (if filter (matching path) xs = [] then acc
      else entryBounds d (last (filter (matching path) xs)))"
  by (induction xs rule: rev_induct) (simp_all add: reduce_step_matching)

lemma dataBounds_none:
  "datasetStats env = None \<Longrightarrow> dataBounds env path = (JNull, JNull)"
  by (simp add: dataBounds_def)

lemma dataBounds_no_match:
  "datasetStats env = Some stats \<Longrightarrow> filter (matching path) stats = [] \<Longrightarrow>
   dataBounds env path = (JNull, JNull)"
  by (simp add: dataBounds_def foldl_reduce_step)

lemma dataBounds_match:
  "datasetStats env = Some stats \<Longrightarrow> filter (matching path) stats \<noteq> [] \<Longrightarrow>
   dataBounds env path =
     entryBounds (isDateTimeField env path \<or> isDateField env path)
       (last (filter (matching path) stats))"
  by (simp add: dataBounds_def foldl_reduce_step)

lemma boundsAtom_null:
  "dataBounds env path = (JNull, JNull) \<Longrightarrow> boundsAtom env path d = (JNull, JNull)"
  by (simp add: boundsAtom_def)

lemma boundsAtom_no_override: "boundsAtom env path None = dataBounds env path"
  by (simp add: boundsAtom_def Let_def)

text \<open>
  With nothing stored the derived range is the bounds, and \<^verbatim>\<open>none\<close> tells whether the
  bounds are \<^verbatim>\<open>===\<close> to themselves.
\<close>

lemma getFilter_absent:
  "filterStages env (modal, path) = None \<Longrightarrow>
   getFilter env modal path d =
     \<lparr>f_range = boundsAtom env path d,
      f_none = range_eq (boundsAtom env path d) (boundsAtom env path d),
      f_CLS = ''numeric''\<rparr>"
  by (auto simp: getFilter_def filterStage_get_def meetsDefault_def range_eq_def Let_def)

lemma getFilter_stored:
  "filterStages env (modal, path) = Some r \<Longrightarrow>
   getFilter env modal path d =
     (if range_eq (f_range r) (boundsAtom env path d) then r else r\<lparr>f_none := False\<rparr>)"
  by (simp add: getFilter_def filterStage_get_def meetsDefault_def range_eq_def)

text \<open>A derived \<^verbatim>\<open>none\<close> that is true comes with a range equal to the bounds.\<close>

lemma getFilter_none_range:
  "f_none (getFilter env modal path d) \<Longrightarrow>
   range_eq (f_range (getFilter env modal path d)) (boundsAtom env path d)"
  by (cases "filterStages env (modal, path)")
     (auto simp: getFilter_absent getFilter_stored split: if_splits)

lemma NumericFilter_overwritten:
  "(f :: NumericFilter)\<lparr>f_range := r, f_CLS := c, f_none := n\<rparr> =
     \<lparr>f_range = r, f_none = n, f_CLS = c\<rparr>"
  by (cases f) simp

text \<open>The bounds do not depend on the filter store.\<close>

lemma boundsAtom_filterStage_set [simp]:
  "boundsAtom (filterStage_set env modal path v) p d = boundsAtom env p d"
  by (simp add: boundsAtom_def dataBounds_def filterStage_set_def isDateTimeField_def
      isDateField_def)

lemma filterStages_filterStage_set [simp]:
  "filterStages (filterStage_set env modal path v) k =
     (if k = (modal, path) then v else filterStages env k)"
  by (simp add: filterStage_set_def)

lemma filterStage_set_neq:
  "v \<noteq> w \<Longrightarrow> filterStage_set env modal path v \<noteq> filterStage_set env modal path w"
proof
  assume neq: "v \<noteq> w"
    and eq: "filterStage_set env modal path v = filterStage_set env modal path w"
  have "filterStages (filterStage_set env modal path v) (modal, path) =
        filterStages (filterStage_set env modal path w) (modal, path)"
    by (simp only: eq)
  with neq show False by simp
qed

text \<open>A write of a range stores the range with \<^verbatim>\<open>none\<close> false, or clears the key.\<close>

lemma setFilter_range:
  "setFilter env modal path ''range'' (VRange r) d =
     Inr (filterStage_set env modal path
       (if range_eq r (boundsAtom env path d) then None
        else Some \<lparr>f_range = r, f_none = False, f_CLS = ''numeric''\<rparr>))"
  by (simp add: setFilter_def Let_def meetsDefault_def range_eq_def NumericFilter_overwritten)

text \<open>Whatever is written, a record that gets stored has \<^verbatim>\<open>none\<close> false.\<close>

lemma setFilter_stores_none_False:
  "setFilter env modal path key value d = Inr env' \<Longrightarrow>
   filterStages env' (modal, path) = Some r \<Longrightarrow> f_none r = False"
  by (auto simp: setFilter_def Let_def split: if_splits val.splits)

lemma run_writes_none_False:
  "(\<And>r. filterStages env (modal, path) = Some r \<Longrightarrow> f_none r = False) \<Longrightarrow>
   filterStages (run_writes env modal path ws) (modal, path) = Some r \<Longrightarrow> f_none r = False"
proof (induction ws arbitrary: env)
  case Nil
  then show ?case by simp
next
  case (Cons w ws)
  obtain key "value" d where w: "w = (key, value, d)"
    by (cases w)
  show ?case
  proof (cases "setFilter env modal path key value d")
    case (Inl e)
    from Cons.IH [OF Cons.prems(1)] Cons.prems(2) Inl w show ?thesis by simp
  next
    case (Inr env')
    have "\<And>r. filterStages env' (modal, path) = Some r \<Longrightarrow> f_none r = False"
      using Inr by (rule setFilter_stores_none_False)
    from Cons.IH [OF this] Cons.prems(2) Inr w show ?thesis by simp
  qed
qed

lemma ex_bounds: "boundsAtom ex_state ''confidence'' None = (JNum 0, JNum 10)"
  by (simp add: boundsAtom_def dataBounds_def ex_state_def ex_stats_def reduce_step_def
      isDateTimeField_def isDateField_def)

lemma ex_state_absent: "filterStages ex_state k = None"
  by (simp add: ex_state_def)

lemma ex_state_getFilter:
  "getFilter ex_state False ''confidence'' None =
     \<lparr>f_range = (JNum 0, JNum 10), f_none = True, f_CLS = ''numeric''\<rparr>"
  by (simp add: getFilter_absent ex_state_absent ex_bounds range_eq_def)

lemma ex_filtered_bounds: "boundsAtom ex_filtered ''confidence'' None = (JNum 0, JNum 10)"
  by (simp add: ex_filtered_def ex_bounds)

lemma ex_filtered_stored:
  "filterStages ex_filtered (False, ''confidence'') =
     Some \<lparr>f_range = (JNum 2, JNum 8), f_none = False, f_CLS = ''numeric''\<rparr>"
  by (simp add: ex_filtered_def)

lemma ex_filtered_getFilter:
  "getFilter ex_filtered False ''confidence'' None =
     \<lparr>f_range = (JNum 2, JNum 8), f_none = False, f_CLS = ''numeric''\<rparr>"
  by (simp add: getFilter_stored [OF ex_filtered_stored] ex_filtered_bounds range_eq_def)

subsection \<open>The write\<close>

text \<open>
  Claim C1, as the specification states it: a write of key \<^verbatim>\<open>range\<close> or \<^verbatim>\<open>none\<close>
  merges the new value into the derived filter; if the merged record (its \<^verbatim>\<open>none\<close>
  coerced to a boolean when \<^verbatim>\<open>none\<close> is the edited key) equals the default record
  \<^verbatim>\<open>{range: bounds, none: true}\<close> the key is cleared, otherwise the merged record with
  \<^verbatim>\<open>none\<close> forced to false is stored. This fails for a write of \<^verbatim>\<open>range\<close>: with the
  record \<^verbatim>\<open>{range: [2, 8], none: false}\<close> stored and the bounds [0, 10], writing the
  range [0, 10] gives the merged record \<^verbatim>\<open>{range: [0, 10], none: false}\<close>, which is
  not the default record, yet the code clears the key.
\<close>

theorem setFilter_spec_counterexample:
  "typed_write ''range'' (VRange (JNum 0, JNum 10)) \<and>
   setFilter ex_filtered False ''confidence'' ''range'' (VRange (JNum 0, JNum 10)) None =
     Inr (filterStage_set ex_filtered False ''confidence'' None) \<and>
   setFilter_spec ex_filtered False ''confidence'' ''range'' (VRange (JNum 0, JNum 10)) None =
     filterStage_set ex_filtered False ''confidence''
       (Some \<lparr>f_range = (JNum 0, JNum 10), f_none = False, f_CLS = ''numeric''\<rparr>) \<and>
   setFilter ex_filtered False ''confidence'' ''range'' (VRange (JNum 0, JNum 10)) None \<noteq>
     Inr (setFilter_spec ex_filtered False ''confidence'' ''range''
            (VRange (JNum 0, JNum 10)) None)"
proof -
  have code:
    "setFilter ex_filtered False ''confidence'' ''range'' (VRange (JNum 0, JNum 10)) None =
       Inr (filterStage_set ex_filtered False ''confidence'' None)"
    by (simp add: setFilter_range ex_filtered_bounds range_eq_def)
  have spec:
    "setFilter_spec ex_filtered False ''confidence'' ''range'' (VRange (JNum 0, JNum 10)) None =
       filterStage_set ex_filtered False ''confidence''
         (Some \<lparr>f_range = (JNum 0, JNum 10), f_none = False, f_CLS = ''numeric''\<rparr>)"
    by (simp add: setFilter_spec_def merge_spec_def ex_filtered_getFilter ex_filtered_bounds
        meetsDefault_def)
  have "filterStage_set ex_filtered False ''confidence'' None \<noteq>
        filterStage_set ex_filtered False ''confidence''
          (Some \<lparr>f_range = (JNum 0, JNum 10), f_none = False, f_CLS = ''numeric''\<rparr>)"
    by (rule filterStage_set_neq) simp
  with code spec show ?thesis by (simp add: typed_write_def)
qed

text \<open>
  Claim C1, amended: a write of key \<^verbatim>\<open>range\<close> with a range, or of key \<^verbatim>\<open>none\<close>,
  merges the new value into the derived filter and compares a copy of the merged record
  whose \<^verbatim>\<open>none\<close> is true when the edited key is \<^verbatim>\<open>range\<close>, and the new value coerced
  to a boolean when the edited key is \<^verbatim>\<open>none\<close>, with the default record. If they are
  equal the key is cleared; otherwise the merged record with \<^verbatim>\<open>none\<close> forced to false
  is stored.
\<close>

theorem setFilter_normalizes:
  "typed_write key value \<Longrightarrow>
   setFilter env modal path key value defaultRange =
     Inr (setFilter_amended env modal path key value defaultRange)"
  by (cases "value")
     (auto simp: typed_write_def setFilter_def setFilter_amended_def merge_spec_def Let_def
        meetsDefault_def split: if_splits)

theorem setFilter_normalizes_witness:
  "typed_write ''range'' (VRange (JNum 0, JNum 10)) \<and>
   setFilter ex_filtered False ''confidence'' ''range'' (VRange (JNum 0, JNum 10)) None =
     Inr (filterStage_set ex_filtered False ''confidence'' None) \<and>
   typed_write ''none'' (VBool False) \<and>
   setFilter ex_state False ''confidence'' ''none'' (VBool False) None =
     Inr (filterStage_set ex_state False ''confidence''
       (Some \<lparr>f_range = (JNum 0, JNum 10), f_none = False, f_CLS = ''numeric''\<rparr>))"
proof -
  have t1: "typed_write ''range'' (VRange (JNum 0, JNum 10))"
    by (simp add: typed_write_def)
  have t2: "typed_write ''none'' (VBool False)"
    by (simp add: typed_write_def)
  have a1:
    "setFilter_amended ex_filtered False ''confidence'' ''range'' (VRange (JNum 0, JNum 10)) None =
       filterStage_set ex_filtered False ''confidence'' None"
    by (simp add: setFilter_amended_def merge_spec_def ex_filtered_getFilter
        ex_filtered_bounds meetsDefault_def)
  have a2:
    "setFilter_amended ex_state False ''confidence'' ''none'' (VBool False) None =
       filterStage_set ex_state False ''confidence''
         (Some \<lparr>f_range = (JNum 0, JNum 10), f_none = False, f_CLS = ''numeric''\<rparr>)"
    by (simp add: setFilter_amended_def merge_spec_def ex_state_getFilter ex_bounds
        meetsDefault_def)
  show ?thesis
    using setFilter_normalizes [OF t1, of ex_filtered False "''confidence''" None]
      setFilter_normalizes [OF t2, of ex_state False "''confidence''" None] t1 t2
    by (simp only: a1 a2 simp_thms)
qed

subsection \<open>The store invariant\<close>

text \<open>
  Claim C2: starting from a store with no record for (path, modal), after every finite
  sequence of writes to that key the store holds no record for the key, or a record for
  which \<open>meetsDefault\<close> is false, whatever the bounds it is compared with.
\<close>

theorem store_never_default_equivalent:
  "filterStages env (modal, path) = None \<Longrightarrow>
   filterStages (run_writes env modal path ws) (modal, path) = None \<or>
   (\<exists>r. filterStages (run_writes env modal path ws) (modal, path) = Some r \<and>
        \<not> meetsDefault r bounds)"
proof (cases "filterStages (run_writes env modal path ws) (modal, path)")
  case None
  then show ?thesis by simp
next
  case (Some r)
  assume absent: "filterStages env (modal, path) = None"
  have "f_none r = False"
    by (rule run_writes_none_False [OF _ Some]) (simp add: absent)
  with Some show ?thesis by (simp add: meetsDefault_def)
qed

theorem store_never_default_equivalent_witness:
  "filterStages ex_state (False, ''confidence'') = None \<and>
   run_writes ex_state False ''confidence'' [(''range'', VRange (JNum 2, JNum 8), None)] =
     ex_filtered \<and>
   \<not> meetsDefault \<lparr>f_range = (JNum 2, JNum 8), f_none = False, f_CLS = ''numeric''\<rparr>
       (boundsAtom ex_filtered ''confidence'' None)"
proof -
  have run:
    "run_writes ex_state False ''confidence'' [(''range'', VRange (JNum 2, JNum 8), None)] =
       ex_filtered"
    by (simp add: setFilter_range ex_bounds range_eq_def ex_filtered_def)
  from store_never_default_equivalent [OF ex_state_absent,
      of False "''confidence''" "[(''range'', VRange (JNum 2, JNum 8), None)]"
        "boundsAtom ex_filtered ''confidence'' None"]
  show ?thesis
    by (simp only: run) (simp add: ex_filtered_stored ex_state_absent)
qed

subsection \<open>Reading the filter\<close>

lemma ex_nan_absent: "filterStages ex_nan k = None"
  by (simp add: ex_nan_def)

lemma ex_nan_bounds: "boundsAtom ex_nan ''confidence'' None = (JNaN, JNum 5)"
  by (simp add: boundsAtom_def dataBounds_def ex_nan_def ex_nan_stats_def reduce_step_def
      isDateTimeField_def isDateField_def)

text \<open>
  Claim C3, as the specification states it: when no record is stored, the derived filter
  is \<^verbatim>\<open>{range: bounds, none: true}\<close>; when the stored record has a range that differs
  from the bounds at some position, or a \<^verbatim>\<open>none\<close> that is not true, the derived
  \<^verbatim>\<open>none\<close> is false; when the stored record has the range equal to the bounds and
  \<^verbatim>\<open>none\<close> true, it is returned unchanged. The first part fails when a bound is NaN:
  with the bounds [NaN, 5] and nothing stored, \<^verbatim>\<open>NaN === NaN\<close> is false in
  \<open>meetsDefault\<close>, and the derived \<^verbatim>\<open>none\<close> is false.
\<close>

theorem getFilter_default_counterexample:
  "filterStages ex_nan (False, ''confidence'') = None \<and>
   boundsAtom ex_nan ''confidence'' None = (JNaN, JNum 5) \<and>
   getFilter ex_nan False ''confidence'' None =
     \<lparr>f_range = (JNaN, JNum 5), f_none = False, f_CLS = ''numeric''\<rparr> \<and>
   getFilter ex_nan False ''confidence'' None \<noteq>
     \<lparr>f_range = boundsAtom ex_nan ''confidence'' None, f_none = True, f_CLS = ''numeric''\<rparr>"
  by (simp add: getFilter_absent ex_nan_absent ex_nan_bounds range_eq_def)

text \<open>
  Claim C3, amended: when no record is stored and neither bound is NaN, the derived
  filter is \<^verbatim>\<open>{range: bounds, none: true}\<close> (with the kind tag); when the stored record
  has a range that differs from the bounds at some position, or a \<^verbatim>\<open>none\<close> that is not
  true, the derived \<^verbatim>\<open>none\<close> is false; when the stored record has the range equal to
  the bounds and \<^verbatim>\<open>none\<close> true, it is returned unchanged.
\<close>

theorem getFilter_derives:
  "(filterStages env (modal, path) = None \<and>
      fst (boundsAtom env path d) \<noteq> JNaN \<and> snd (boundsAtom env path d) \<noteq> JNaN \<longrightarrow>
      getFilter env modal path d =
        \<lparr>f_range = boundsAtom env path d, f_none = True, f_CLS = ''numeric''\<rparr>) \<and>
   (filterStages env (modal, path) = Some r \<and>
      (\<not> range_eq (f_range r) (boundsAtom env path d) \<or> f_none r \<noteq> True) \<longrightarrow>
      f_none (getFilter env modal path d) = False) \<and>
   (filterStages env (modal, path) = Some r \<and>
      range_eq (f_range r) (boundsAtom env path d) \<and> f_none r = True \<longrightarrow>
      getFilter env modal path d = r)"
  by (auto simp: getFilter_absent getFilter_stored range_eq_def)

theorem getFilter_derives_witness:
  "filterStages ex_state (False, ''confidence'') = None \<and>
   fst (boundsAtom ex_state ''confidence'' None) \<noteq> JNaN \<and>
   snd (boundsAtom ex_state ''confidence'' None) \<noteq> JNaN \<and>
   getFilter ex_state False ''confidence'' None =
     \<lparr>f_range = (JNum 0, JNum 10), f_none = True, f_CLS = ''numeric''\<rparr> \<and>
   filterStages ex_filtered (False, ''confidence'') =
     Some \<lparr>f_range = (JNum 2, JNum 8), f_none = False, f_CLS = ''numeric''\<rparr> \<and>
   \<not> range_eq (JNum 2, JNum 8) (boundsAtom ex_filtered ''confidence'' None) \<and>
   f_none (getFilter ex_filtered False ''confidence'' None) = False \<and>
   filterStages ex_default (False, ''confidence'') =
     Some \<lparr>f_range = (JNum 0, JNum 10), f_none = True, f_CLS = ''numeric''\<rparr> \<and>
   range_eq (JNum 0, JNum 10) (boundsAtom ex_default ''confidence'' None) \<and>
   getFilter ex_default False ''confidence'' None =
     \<lparr>f_range = (JNum 0, JNum 10), f_none = True, f_CLS = ''numeric''\<rparr>"
proof -
  have b: "boundsAtom ex_default ''confidence'' None = (JNum 0, JNum 10)"
    by (simp add: ex_default_def ex_bounds)
  have s: "filterStages ex_default (False, ''confidence'') =
     Some \<lparr>f_range = (JNum 0, JNum 10), f_none = True, f_CLS = ''numeric''\<rparr>"
    by (simp add: ex_default_def)
  show ?thesis
    using getFilter_derives [of ex_state False "''confidence''" None undefined]
      getFilter_derives [of ex_filtered False "''confidence''" None
        "\<lparr>f_range = (JNum 2, JNum 8), f_none = False, f_CLS = ''numeric''\<rparr>"]
      getFilter_derives [of ex_default False "''confidence''" None
        "\<lparr>f_range = (JNum 0, JNum 10), f_none = True, f_CLS = ''numeric''\<rparr>"]
    by (simp add: ex_state_absent ex_bounds ex_filtered_stored ex_filtered_bounds b s
        range_eq_def)
qed

subsection \<open>The is-filtered predicate\<close>

text \<open>
  Claim C4: \<open>fieldIsFiltered\<close> is true if and only if the derived \<^verbatim>\<open>none\<close> is false,
  or there is a position at which the range differs from the bounds, with neither of the
  two \<^verbatim>\<open>null\<close> there, and the bounds are not degenerate (\<^verbatim>\<open>bounds[0] !== bounds[1]\<close>).
\<close>

theorem fieldIsFiltered_iff:
  "fieldIsFiltered env path d modal \<longleftrightarrow>
     \<not> noneAtom_get env d modal path \<or>
     ((\<exists>i<2. \<not> strict_eq (elem (rangeAtom_get env d modal path) i) (elem (boundsAtom env path d) i) \<and>
              elem (boundsAtom env path d) i \<noteq> JNull \<and>
              elem (rangeAtom_get env d modal path) i \<noteq> JNull) \<and>
      \<not> strict_eq (fst (boundsAtom env path d)) (snd (boundsAtom env path d)))"
proof -
  have ex2: "\<And>P. (\<exists>i<2::nat. P i) \<longleftrightarrow> P 0 \<or> P 1"
    by (auto simp: less_2_cases_iff)
  show ?thesis
    by (simp add: fieldIsFiltered_def Let_def ex2 elem_def)
qed

theorem fieldIsFiltered_iff_witness:
  "\<not> noneAtom_get ex_filtered None False ''confidence'' \<and>
   fieldIsFiltered ex_filtered ''confidence'' None False \<and>
   noneAtom_get ex_state None False ''confidence'' \<and>
   rangeAtom_get ex_state None False ''confidence'' = boundsAtom ex_state ''confidence'' None \<and>
   \<not> fieldIsFiltered ex_state ''confidence'' None False"
  using fieldIsFiltered_iff [of ex_filtered "''confidence''" None False]
    fieldIsFiltered_iff [of ex_state "''confidence''" None False]
  by (simp add: noneAtom_get_def rangeAtom_get_def ex_filtered_getFilter ex_state_getFilter
      ex_bounds elem_def)

subsection \<open>Bounds\<close>

lemma lesser_numbers: "lesser (JNum x) (JNum y) = JNum (min x y)"
  by (simp add: lesser_def js_lt_def min_def)

lemma greater_numbers: "greater (JNum x) (JNum y) = JNum (max x y)"
  by (simp add: greater_def js_gt_def max_def)

text \<open>With an override, data bounds that are not both null are widened position by position.\<close>

lemma boundsAtom_override:
  "dataBounds env path = (dmin, dmax) \<Longrightarrow> \<not> (dmin = JNull \<and> dmax = JNull) \<Longrightarrow>
   boundsAtom env path (Some (omin, omax)) = (lesser omin dmin, greater omax dmax)"
  by (auto simp: boundsAtom_def lesser_def greater_def)

lemma ex_empty_matching:
  "filter (matching ''confidence'') ex_empty_stats =
     [\<lparr>s_name = ''confidence'', s_CLS = BOUNDS, s_result = (JNull, JNull)\<rparr>]"
  by (simp add: ex_empty_stats_def matching_def)

lemma ex_empty_not_date:
  "\<not> (isDateTimeField ex_empty_field ''confidence'' \<or> isDateField ex_empty_field ''confidence'')"
  by (simp add: isDateTimeField_def isDateField_def ex_empty_field_def)

lemma ex_empty_stats_loaded: "datasetStats ex_empty_field = Some ex_empty_stats"
  by (simp add: ex_empty_field_def)

text \<open>
  Claim C5, as the specification states it: when the statistics hold a matching bounds
  entry with the data bounds [dmin, dmax] and an override [omin, omax] is supplied,
  \<open>boundsAtom\<close> is [min(omin, dmin), max(omax, dmax)]; when no entry matches, the
  override is not applied and the result is [null, null]. This fails for a matching entry
  whose bounds are [null, null], the entry of a field without values: with the override
  [-5, 7] the lesser of the mins is -5 and the greater of the maxes is 7 (\<^verbatim>\<open>null\<close>
  compares as 0), yet \<open>boundsAtom\<close> returns [null, null] without looking at the override.
\<close>

theorem boundsAtom_spec_counterexample:
  "filter (matching ''confidence'') ex_empty_stats \<noteq> [] \<and>
   boundsAtom ex_empty_field ''confidence'' (Some (JNum (- 5), JNum 7)) = (JNull, JNull) \<and>
   boundsAtom_spec ex_empty_field ''confidence'' (JNum (- 5), JNum 7) = (JNum (- 5), JNum 7) \<and>
   boundsAtom ex_empty_field ''confidence'' (Some (JNum (- 5), JNum 7)) \<noteq>
     boundsAtom_spec ex_empty_field ''confidence'' (JNum (- 5), JNum 7)"
proof -
  have d: "dataBounds ex_empty_field ''confidence'' = (JNull, JNull)"
    by (simp add: dataBounds_match [OF ex_empty_stats_loaded] ex_empty_matching
        ex_empty_not_date entryBounds_def)
  have code: "boundsAtom ex_empty_field ''confidence'' (Some (JNum (- 5), JNum 7)) =
      (JNull, JNull)"
    by (rule boundsAtom_null [OF d])
  have spec: "boundsAtom_spec ex_empty_field ''confidence'' (JNum (- 5), JNum 7) =
      (JNum (- 5), JNum 7)"
    by (simp add: boundsAtom_spec_def ex_empty_stats_loaded ex_empty_matching
        ex_empty_not_date entryBounds_def lesser_def greater_def js_lt_def js_gt_def)
  show ?thesis
    by (simp add: code spec ex_empty_matching)
qed

text \<open>
  Claim C5, amended: when the statistics hold a matching bounds entry with the data
  bounds [dmin, dmax] (the last matching entry, unwrapped for a date field), not both
  \<^verbatim>\<open>null\<close>, and an override [omin, omax] is supplied, \<open>boundsAtom\<close> is
  \<^verbatim>\<open>[omin < dmin ? omin : dmin, omax > dmax ? omax : dmax]\<close>, the lesser of the two mins
  and the greater of the two maxes, which for four numbers is
  [min(omin, dmin), max(omax, dmax)]; when the data bounds of the matching entry are both
  \<^verbatim>\<open>null\<close>, or no entry matches, the override is not applied and the result is
  [null, null].
\<close>

theorem boundsAtom_override_widens:
  "(datasetStats env = Some stats \<and> filter (matching path) stats \<noteq> [] \<and>
    entryBounds (isDateTimeField env path \<or> isDateField env path)
      (last (filter (matching path) stats)) = (dmin, dmax) \<and>
    \<not> (dmin = JNull \<and> dmax = JNull) \<longrightarrow>
    boundsAtom env path (Some (omin, omax)) = (lesser omin dmin, greater omax dmax)) \<and>
   lesser (JNum x) (JNum y) = JNum (min x y) \<and>
   greater (JNum x) (JNum y) = JNum (max x y) \<and>
   (datasetStats env = Some stats \<and> filter (matching path) stats \<noteq> [] \<and>
    entryBounds (isDateTimeField env path \<or> isDateField env path)
      (last (filter (matching path) stats)) = (JNum nmin, JNum nmax) \<longrightarrow>
    boundsAtom env path (Some (JNum pmin, JNum pmax)) =
      (JNum (min pmin nmin), JNum (max pmax nmax))) \<and>
   (datasetStats env = Some stats \<and> filter (matching path) stats \<noteq> [] \<and>
    entryBounds (isDateTimeField env path \<or> isDateField env path)
      (last (filter (matching path) stats)) = (JNull, JNull) \<longrightarrow>
    boundsAtom env path (Some override) = (JNull, JNull)) \<and>
   (datasetStats env = None \<or>
    datasetStats env = Some stats \<and> filter (matching path) stats = [] \<longrightarrow>
    boundsAtom env path (Some override) = (JNull, JNull))"
proof (intro conjI impI)
  assume "datasetStats env = Some stats \<and> filter (matching path) stats \<noteq> [] \<and>
    entryBounds (isDateTimeField env path \<or> isDateField env path)
      (last (filter (matching path) stats)) = (dmin, dmax) \<and>
    \<not> (dmin = JNull \<and> dmax = JNull)"
  then have "dataBounds env path = (dmin, dmax)" and "\<not> (dmin = JNull \<and> dmax = JNull)"
    by (simp_all add: dataBounds_match)
  then show "boundsAtom env path (Some (omin, omax)) = (lesser omin dmin, greater omax dmax)"
    by (rule boundsAtom_override)
next
  show "lesser (JNum x) (JNum y) = JNum (min x y)"
    by (rule lesser_numbers)
next
  show "greater (JNum x) (JNum y) = JNum (max x y)"
    by (rule greater_numbers)
next
  assume "datasetStats env = Some stats \<and> filter (matching path) stats \<noteq> [] \<and>
    entryBounds (isDateTimeField env path \<or> isDateField env path)
      (last (filter (matching path) stats)) = (JNum nmin, JNum nmax)"
  then have "dataBounds env path = (JNum nmin, JNum nmax)"
    by (simp add: dataBounds_match)
  then have "boundsAtom env path (Some (JNum pmin, JNum pmax)) =
      (lesser (JNum pmin) (JNum nmin), greater (JNum pmax) (JNum nmax))"
    by (rule boundsAtom_override) simp
  then show "boundsAtom env path (Some (JNum pmin, JNum pmax)) =
      (JNum (min pmin nmin), JNum (max pmax nmax))"
    by (simp add: lesser_numbers greater_numbers)
next
  assume "datasetStats env = Some stats \<and> filter (matching path) stats \<noteq> [] \<and>
    entryBounds (isDateTimeField env path \<or> isDateField env path)
      (last (filter (matching path) stats)) = (JNull, JNull)"
  then have "dataBounds env path = (JNull, JNull)"
    by (simp add: dataBounds_match)
  then show "boundsAtom env path (Some override) = (JNull, JNull)"
    by (rule boundsAtom_null)
next
  assume "datasetStats env = None \<or>
    datasetStats env = Some stats \<and> filter (matching path) stats = []"
  then have "dataBounds env path = (JNull, JNull)"
    by (auto simp: dataBounds_none dataBounds_no_match)
  then show "boundsAtom env path (Some override) = (JNull, JNull)"
    by (rule boundsAtom_null)
qed

theorem boundsAtom_override_widens_witness:
  "datasetStats ex_state = Some ex_stats \<and> filter (matching ''confidence'') ex_stats \<noteq> [] \<and>
   entryBounds (isDateTimeField ex_state ''confidence'' \<or> isDateField ex_state ''confidence'')
     (last (filter (matching ''confidence'') ex_stats)) = (JNum 0, JNum 10) \<and>
   boundsAtom ex_state ''confidence'' (Some (JNum (- 5), JNum 7)) = (JNum (- 5), JNum 10) \<and>
   boundsAtom ex_state ''confidence'' (Some (JNull, JNum 20)) = (JNum 0, JNum 20) \<and>
   datasetStats ex_empty_field = Some ex_empty_stats \<and>
   filter (matching ''confidence'') ex_empty_stats \<noteq> [] \<and>
   entryBounds
     (isDateTimeField ex_empty_field ''confidence'' \<or> isDateField ex_empty_field ''confidence'')
     (last (filter (matching ''confidence'') ex_empty_stats)) = (JNull, JNull) \<and>
   boundsAtom ex_empty_field ''confidence'' (Some (JNum (- 5), JNum 7)) = (JNull, JNull) \<and>
   filter (matching ''label'') ex_stats = [] \<and>
   boundsAtom ex_state ''label'' (Some (JNum (- 5), JNum 7)) = (JNull, JNull)"
proof -
  have d: "datasetStats ex_state = Some ex_stats"
    by (simp add: ex_state_def)
  have m: "filter (matching ''confidence'') ex_stats =
      [\<lparr>s_name = ''confidence'', s_CLS = BOUNDS, s_result = (JNum 0, JNum 10)\<rparr>]"
    by (simp add: ex_stats_def matching_def)
  have n: "filter (matching ''label'') ex_stats = []"
    by (simp add: ex_stats_def matching_def)
  have t: "\<not> (isDateTimeField ex_state ''confidence'' \<or> isDateField ex_state ''confidence'')"
    by (simp add: isDateTimeField_def isDateField_def ex_state_def)
  have l: "lesser JNull (JNum 0) = JNum 0" "greater (JNum 20) (JNum 10) = JNum 20"
    by (simp_all add: lesser_def greater_def js_lt_def js_gt_def)
  show ?thesis
    using boundsAtom_override_widens
        [of ex_state ex_stats "''confidence''" "JNum 0" "JNum 10" JNull "JNum 20"
          _ _ 0 10 "- 5" 7]
      boundsAtom_override_widens
        [of ex_empty_field ex_empty_stats "''confidence''" _ _ _ _ _ _ _ _ _ _
          "(JNum (- 5), JNum 7)"]
      boundsAtom_override_widens [of ex_state ex_stats "''label''" _ _ _ _ _ _ _ _ _ _
        "(JNum (- 5), JNum 7)"]
    by (simp add: d m n t l entryBounds_def ex_empty_stats_loaded ex_empty_matching
        ex_empty_not_date)
qed

text \<open>
  Claim C6: when the statistics are absent, or hold no entry whose name is the path and
  whose kind is the bounds aggregation, \<open>boundsAtom\<close> is [null, null], with or without
  an override.
\<close>

theorem boundsAtom_null_fallback:
  "datasetStats env = None \<or>
   (\<exists>stats. datasetStats env = Some stats \<and>
      (\<forall>e \<in> set stats. \<not> (s_name e = path \<and> s_CLS e = BOUNDS))) \<Longrightarrow>
   boundsAtom env path defaultRange = (JNull, JNull)"
proof (erule disjE)
  assume "datasetStats env = None"
  then show ?thesis
    by (simp add: boundsAtom_null dataBounds_none)
next
  assume "\<exists>stats. datasetStats env = Some stats \<and>
      (\<forall>e \<in> set stats. \<not> (s_name e = path \<and> s_CLS e = BOUNDS))"
  then obtain stats where s: "datasetStats env = Some stats"
    and no: "\<forall>e \<in> set stats. \<not> (s_name e = path \<and> s_CLS e = BOUNDS)"
    by blast
  from no have "filter (matching path) stats = []"
    by (simp add: filter_empty_conv matching_def)
  with s show ?thesis
    by (simp add: boundsAtom_null dataBounds_no_match)
qed

theorem boundsAtom_null_fallback_witness:
  "datasetStats ex_unloaded = None \<and>
   boundsAtom ex_unloaded ''confidence'' (Some (JNum 0, JNum 1)) = (JNull, JNull) \<and>
   datasetStats ex_state = Some ex_stats \<and>
   list_all (\<lambda>e. \<not> (s_name e = ''label'' \<and> s_CLS e = BOUNDS)) ex_stats \<and>
   boundsAtom ex_state ''label'' None = (JNull, JNull)"
proof -
  have u: "datasetStats ex_unloaded = None"
    by (simp add: ex_unloaded_def)
  have d: "datasetStats ex_state = Some ex_stats"
    by (simp add: ex_state_def)
  have n: "\<forall>e \<in> set ex_stats. \<not> (s_name e = ''label'' \<and> s_CLS e = BOUNDS)"
    by (simp add: ex_stats_def)
  have h: "datasetStats ex_state = None \<or>
     (\<exists>stats. datasetStats ex_state = Some stats \<and>
        (\<forall>e \<in> set stats. \<not> (s_name e = ''label'' \<and> s_CLS e = BOUNDS)))"
    using d n by blast
  show ?thesis
    using boundsAtom_null_fallback [OF disjI1, OF u, of "''confidence''" "Some (JNum 0, JNum 1)"]
      boundsAtom_null_fallback [OF h, of None] u d n
    by (simp add: list_all_iff)
qed

text \<open>
  Claim C7: for a date or date-time field each element of the matching entry's result is
  replaced by its datetime payload, a falsy element (\<^verbatim>\<open>null\<close>, \<^verbatim>\<open>undefined\<close>, 0) being left
  as it is; for any other field the result is used as it is. (Without an override,
  \<open>boundsAtom\<close> returns these bounds unchanged.)
\<close>

theorem boundsAtom_unwraps_dates:
  "datasetStats env = Some stats \<Longrightarrow> filter (matching path) stats \<noteq> [] \<Longrightarrow>
   s_result (last (filter (matching path) stats)) = (a, b) \<Longrightarrow>
   boundsAtom env path None =
     (if isDateTimeField env path \<or> isDateField env path then (unwrap a, unwrap b)
      else (a, b)) \<and>
   unwrap (JDateTime i t) = JNum t \<and> unwrap JNull = JNull \<and>
   unwrap JUndefined = JUndefined \<and> unwrap (JNum 0) = JNum 0"
  by (simp add: boundsAtom_no_override dataBounds_match entryBounds_def unwrap_def)

theorem boundsAtom_unwraps_dates_witness:
  "datasetStats ex_date_state = Some ex_date_stats \<and>
   filter (matching ''created_at'') ex_date_stats \<noteq> [] \<and>
   s_result (last (filter (matching ''created_at'') ex_date_stats)) =
     (JDateTime 1 1000, JDateTime 2 2000) \<and>
   isDateTimeField ex_date_state ''created_at'' \<and>
   boundsAtom ex_date_state ''created_at'' None = (JNum 1000, JNum 2000) \<and>
   boundsAtom ex_state ''confidence'' None = (JNum 0, JNum 10)"
proof -
  have d: "datasetStats ex_date_state = Some ex_date_stats"
    by (simp add: ex_date_state_def)
  have m: "filter (matching ''created_at'') ex_date_stats =
      [\<lparr>s_name = ''created_at'', s_CLS = BOUNDS,
        s_result = (JDateTime 1 1000, JDateTime 2 2000)\<rparr>]"
    by (simp add: ex_date_stats_def matching_def)
  have m': "filter (matching ''created_at'') ex_date_stats \<noteq> []"
    by (simp add: m)
  have r: "s_result (last (filter (matching ''created_at'') ex_date_stats)) =
      (JDateTime 1 1000, JDateTime 2 2000)"
    by (simp add: m)
  have t: "isDateTimeField ex_date_state ''created_at''"
    by (simp add: isDateTimeField_def ex_date_state_def)
  have d2: "datasetStats ex_state = Some ex_stats"
    by (simp add: ex_state_def)
  have m2: "filter (matching ''confidence'') ex_stats =
      [\<lparr>s_name = ''confidence'', s_CLS = BOUNDS, s_result = (JNum 0, JNum 10)\<rparr>]"
    by (simp add: ex_stats_def matching_def)
  have m2': "filter (matching ''confidence'') ex_stats \<noteq> []"
    by (simp add: m2)
  have r2: "s_result (last (filter (matching ''confidence'') ex_stats)) = (JNum 0, JNum 10)"
    by (simp add: m2)
  have t2: "\<not> (isDateTimeField ex_state ''confidence'' \<or> isDateField ex_state ''confidence'')"
    by (simp add: isDateTimeField_def isDateField_def ex_state_def)
  show ?thesis
    using boundsAtom_unwraps_dates [OF d m' r] boundsAtom_unwraps_dates [OF d2 m2' r2]
      d m' r t t2
    by (simp add: unwrap_def)
qed

subsection \<open>Round trip\<close>

text \<open>
  Claim C8: for a field with the bounds [0, 10] and no stored filter, setting
  \<open>rangeAtom\<close> to [2, 8] stores \<^verbatim>\<open>{range: [2, 8], none: false}\<close>, and reading back
  gives \<open>noneAtom\<close> false, \<open>rangeAtom\<close> [2, 8] and \<open>fieldIsFiltered\<close> true; setting
  \<open>rangeAtom\<close> back to the bounds then clears the stored record, and reading gives
  \<open>noneAtom\<close> true, \<open>rangeAtom\<close> equal to the bounds and \<open>fieldIsFiltered\<close> false.
\<close>

theorem rangeAtom_round_trip:
  assumes bounds: "boundsAtom env path d = (JNum 0, JNum 10)"
    and absent: "filterStages env (modal, path) = None"
    and env1: "env1 = filterStage_set env modal path
                 (Some \<lparr>f_range = (JNum 2, JNum 8), f_none = False, f_CLS = ''numeric''\<rparr>)"
    and env2: "env2 = filterStage_set env1 modal path None"
  shows "rangeAtom_set env d modal path (VRange (JNum 2, JNum 8)) = Inr env1 \<and>
         noneAtom_get env1 d modal path = False \<and>
         rangeAtom_get env1 d modal path = (JNum 2, JNum 8) \<and>
         fieldIsFiltered env1 path d modal = True \<and>
         rangeAtom_set env1 d modal path (VRange (JNum 0, JNum 10)) = Inr env2 \<and>
         filterStages env2 (modal, path) = None \<and>
         noneAtom_get env2 d modal path = True \<and>
         rangeAtom_get env2 d modal path = (JNum 0, JNum 10) \<and>
         fieldIsFiltered env2 path d modal = False"
proof -
  have b1: "boundsAtom env1 path d = (JNum 0, JNum 10)"
    by (simp add: env1 bounds)
  have b2: "boundsAtom env2 path d = (JNum 0, JNum 10)"
    by (simp add: env2 b1)
  have w1: "rangeAtom_set env d modal path (VRange (JNum 2, JNum 8)) = Inr env1"
    by (simp add: rangeAtom_set_def setFilter_range bounds range_eq_def env1)
  have s1: "filterStages env1 (modal, path) =
      Some \<lparr>f_range = (JNum 2, JNum 8), f_none = False, f_CLS = ''numeric''\<rparr>"
    by (simp add: env1)
  have g1: "getFilter env1 modal path d =
      \<lparr>f_range = (JNum 2, JNum 8), f_none = False, f_CLS = ''numeric''\<rparr>"
    by (simp add: getFilter_stored [OF s1] b1 range_eq_def)
  have w2: "rangeAtom_set env1 d modal path (VRange (JNum 0, JNum 10)) = Inr env2"
    by (simp add: rangeAtom_set_def setFilter_range b1 range_eq_def env2)
  have s2: "filterStages env2 (modal, path) = None"
    by (simp add: env2)
  have g2: "getFilter env2 modal path d =
      \<lparr>f_range = (JNum 0, JNum 10), f_none = True, f_CLS = ''numeric''\<rparr>"
    by (simp add: getFilter_absent [OF s2] b2 range_eq_def)
  have f1: "fieldIsFiltered env1 path d modal = True"
    by (simp add: fieldIsFiltered_def noneAtom_get_def g1)
  have f2: "fieldIsFiltered env2 path d modal = False"
    by (simp add: fieldIsFiltered_def noneAtom_get_def rangeAtom_get_def g2 b2)
  show ?thesis
    by (simp add: w1 w2 s2 f1 f2 noneAtom_get_def rangeAtom_get_def g1 g2)
qed

theorem rangeAtom_round_trip_witness:
  "boundsAtom ex_state ''confidence'' None = (JNum 0, JNum 10) \<and>
   filterStages ex_state (False, ''confidence'') = None \<and>
   rangeAtom_set ex_state None False ''confidence'' (VRange (JNum 2, JNum 8)) =
     Inr ex_filtered \<and>
   noneAtom_get ex_filtered None False ''confidence'' = False \<and>
   rangeAtom_get ex_filtered None False ''confidence'' = (JNum 2, JNum 8) \<and>
   fieldIsFiltered ex_filtered ''confidence'' None False = True \<and>
   rangeAtom_set ex_filtered None False ''confidence'' (VRange (JNum 0, JNum 10)) =
     Inr (filterStage_set ex_filtered False ''confidence'' None) \<and>
   filterStages (filterStage_set ex_filtered False ''confidence'' None)
     (False, ''confidence'') = None \<and>
   noneAtom_get (filterStage_set ex_filtered False ''confidence'' None)
     None False ''confidence'' = True \<and>
   rangeAtom_get (filterStage_set ex_filtered False ''confidence'' None)
     None False ''confidence'' = (JNum 0, JNum 10) \<and>
   fieldIsFiltered (filterStage_set ex_filtered False ''confidence'' None)
     ''confidence'' None False = False"
  using rangeAtom_round_trip [OF ex_bounds ex_state_absent ex_filtered_def refl]
    ex_bounds ex_state_absent
  by simp

subsection \<open>Facts that the specification leaves implicit\<close>

text \<open>
  Claim C9: \<open>fieldIsFiltered\<close> is exactly the negation of \<open>noneAtom\<close>: whenever the
  derived \<^verbatim>\<open>none\<close> is true the derived range equals the bounds at both positions, so
  the range comparison and its degenerate-bounds guard never decide the result.
\<close>

theorem fieldIsFiltered_is_not_none:
  "fieldIsFiltered env path d modal = (\<not> noneAtom_get env d modal path) \<and>
   (noneAtom_get env d modal path \<longrightarrow>
      range_eq (rangeAtom_get env d modal path) (boundsAtom env path d))"
proof -
  have r: "noneAtom_get env d modal path \<Longrightarrow>
      range_eq (rangeAtom_get env d modal path) (boundsAtom env path d)"
    unfolding noneAtom_get_def rangeAtom_get_def by (rule getFilter_none_range)
  have "fieldIsFiltered env path d modal = (\<not> noneAtom_get env d modal path)"
  proof (cases "noneAtom_get env d modal path")
    case True
    from r [OF True] True show ?thesis
      by (simp add: fieldIsFiltered_def Let_def range_eq_def)
  next
    case False
    then show ?thesis
      by (simp add: fieldIsFiltered_def Let_def)
  qed
  with r show ?thesis by simp
qed

theorem fieldIsFiltered_is_not_none_witness:
  "noneAtom_get ex_state None False ''confidence'' \<and>
   range_eq (rangeAtom_get ex_state None False ''confidence'')
     (boundsAtom ex_state ''confidence'' None) \<and>
   fieldIsFiltered ex_state ''confidence'' None False = False \<and>
   noneAtom_get ex_filtered None False ''confidence'' = False \<and>
   fieldIsFiltered ex_filtered ''confidence'' None False = True"
proof -
  have n1: "noneAtom_get ex_state None False ''confidence''"
    by (simp add: noneAtom_get_def ex_state_getFilter)
  have n2: "noneAtom_get ex_filtered None False ''confidence'' = False"
    by (simp add: noneAtom_get_def ex_filtered_getFilter)
  show ?thesis
    using fieldIsFiltered_is_not_none [of ex_state "''confidence''" None False]
      fieldIsFiltered_is_not_none [of ex_filtered "''confidence''" None False] n1 n2
    by simp
qed

text \<open>
  Claim C10: in a state whose stored record has the range equal to the bounds and
  \<^verbatim>\<open>none\<close> false, a write of key \<^verbatim>\<open>range\<close> with a value equal to the bounds clears the
  stored record, so that \<^verbatim>\<open>none\<close> reads as true again. Such a state is reached from an
  empty store by writing \<^verbatim>\<open>none\<close> false.
\<close>

theorem range_write_discards_none:
  "filterStages env (modal, path) = Some r \<Longrightarrow>
   range_eq (f_range r) (boundsAtom env path d) \<Longrightarrow> f_none r = False \<Longrightarrow>
   range_eq v (boundsAtom env path d) \<Longrightarrow>
   noneAtom_get env d modal path = False \<and>
   setFilter env modal path ''range'' (VRange v) d = Inr (filterStage_set env modal path None) \<and>
   filterStages (filterStage_set env modal path None) (modal, path) = None \<and>
   noneAtom_get (filterStage_set env modal path None) d modal path = True \<and>
   (filterStages env0 (modal, path) = None \<longrightarrow>
      setFilter env0 modal path ''none'' (VBool False) d =
        Inr (filterStage_set env0 modal path
          (Some \<lparr>f_range = boundsAtom env0 path d, f_none = False, f_CLS = ''numeric''\<rparr>)))"
proof (intro conjI impI)
  assume stored: "filterStages env (modal, path) = Some r"
    and eq: "range_eq (f_range r) (boundsAtom env path d)"
    and none: "f_none r = False"
    and v: "range_eq v (boundsAtom env path d)"
  show "noneAtom_get env d modal path = False"
    by (simp add: noneAtom_get_def getFilter_stored [OF stored] eq none)
  show "setFilter env modal path ''range'' (VRange v) d =
      Inr (filterStage_set env modal path None)"
    by (simp add: setFilter_range v)
  show "filterStages (filterStage_set env modal path None) (modal, path) = None"
    by simp
  show "noneAtom_get (filterStage_set env modal path None) d modal path = True"
    by (simp add: noneAtom_get_def getFilter_absent range_eq_right_self [OF v])
next
  assume absent: "filterStages env0 (modal, path) = None"
  show "setFilter env0 modal path ''none'' (VBool False) d =
      Inr (filterStage_set env0 modal path
        (Some \<lparr>f_range = boundsAtom env0 path d, f_none = False, f_CLS = ''numeric''\<rparr>))"
    by (simp add: setFilter_def Let_def getFilter_absent [OF absent] meetsDefault_def)
qed

theorem range_write_discards_none_witness:
  "filterStages ex_state (False, ''confidence'') = None \<and>
   setFilter ex_state False ''confidence'' ''none'' (VBool False) None = Inr ex_none_false \<and>
   filterStages ex_none_false (False, ''confidence'') =
     Some \<lparr>f_range = (JNum 0, JNum 10), f_none = False, f_CLS = ''numeric''\<rparr> \<and>
   range_eq (JNum 0, JNum 10) (boundsAtom ex_none_false ''confidence'' None) \<and>
   noneAtom_get ex_none_false None False ''confidence'' = False \<and>
   setFilter ex_none_false False ''confidence'' ''range'' (VRange (JNum 0, JNum 10)) None =
     Inr (filterStage_set ex_none_false False ''confidence'' None) \<and>
   filterStages (filterStage_set ex_none_false False ''confidence'' None)
     (False, ''confidence'') = None"
proof -
  have s: "filterStages ex_none_false (False, ''confidence'') =
     Some \<lparr>f_range = (JNum 0, JNum 10), f_none = False, f_CLS = ''numeric''\<rparr>"
    by (simp add: ex_none_false_def)
  have b: "boundsAtom ex_none_false ''confidence'' None = (JNum 0, JNum 10)"
    by (simp add: ex_none_false_def ex_bounds)
  have e: "range_eq (f_range \<lparr>f_range = (JNum 0, JNum 10), f_none = False, f_CLS = ''numeric''\<rparr>)
      (boundsAtom ex_none_false ''confidence'' None)"
    by (simp add: b range_eq_def)
  have n: "f_none \<lparr>f_range = (JNum 0, JNum 10), f_none = False, f_CLS = ''numeric''\<rparr> = False"
    by simp
  have v: "range_eq (JNum 0, JNum 10) (boundsAtom ex_none_false ''confidence'' None)"
    by (simp add: b range_eq_def)
  show ?thesis
    using range_write_discards_none [OF s e n v, of ex_state] s v ex_state_absent
    by (simp add: ex_bounds ex_none_false_def)
qed

end
